theory Spec2Isabelle
  imports Main "HOL-Library.Sublist"
begin

section \<open>Batch export driver (examples/batch\_convert.py)\<close>

text \<open>
  A shallow embedding of \<^verbatim>\<open>export_documents\<close> and \<^verbatim>\<open>main\<close>. The
  conversion results are objects held in a store and passed by reference; the output
  directory, the files below it and the records handed to \<^verbatim>\<open>_log.info\<close> are
  the rest of the state. The collaborators of the file (pathlib, json, yaml, the
  docling data model) are not part of the source: a path is a list of components, the
  renderers of a result are fields holding what they return, and \<^verbatim>\<open>json.dumps\<close>,
  \<^verbatim>\<open>yaml.safe_dump\<close> and the locale's default text encoding are parameters.
  Creating the directory and writing a file can fail; the exception propagates, as the
  source catches none, and every function returns the state reached together with
  the exception, if any.
\<close>

subsection \<open>Data model\<close>

text \<open>
  Modelled from the spec: the enumeration \<^verbatim>\<open>ConversionStatus\<close> is imported from
  \<^verbatim>\<open>docling.datamodel.base_models\<close>, which is not among the sources; the spec
  gives it the closed set of three outcomes. The driver compares a status with
  \<^verbatim>\<open>SUCCESS\<close>, then with \<^verbatim>\<open>PARTIAL_SUCCESS\<close>, and treats anything else alike.
\<close>

datatype ConversionStatus = SUCCESS | PARTIAL_SUCCESS | FAILURE

type_synonym path = "string list"

text \<open>
  \<^verbatim>\<open>conv_res.input.file\<close> is a \<^verbatim>\<open>pathlib.Path\<close>; the driver reads its
  \<^verbatim>\<open>stem\<close> and formats it into log messages (\<^verbatim>\<open>str\<close>). The field
  \<open>input_file\<close> is the attribute \<^verbatim>\<open>file\<close>.
\<close>

record PathObj =
  path_str :: string
  stem :: string

record InputDocument =
  input_file :: PathObj

text \<open>
  Modelled from the spec: the class \<^verbatim>\<open>ConversionResult\<close>, its input document
  and its error items are declared in \<^verbatim>\<open>docling.datamodel\<close>, which is not
  among the sources. The records below have
  the attributes the driver reads (\<^verbatim>\<open>status\<close>, \<^verbatim>\<open>input.file\<close>,
  \<^verbatim>\<open>errors\<close>, \<^verbatim>\<open>error_message\<close>, \<^verbatim>\<open>experimental\<close>) and, for each
  renderer method the spec lists, a field holding what the call returns.
  \<^verbatim>\<open>model_dump(mode="json", by_alias=True)\<close> and \<^verbatim>\<open>render_as_dict()\<close>
  return a value of the type \<open>'d\<close> of serialisable data.
\<close>

record ErrorItem =
  error_message :: string

record 'd ExperimentalDocument =
  model_dump :: 'd
  export_to_document_tokens :: string
  export_to_markdown :: string

record 'd ConversionResult =
  status :: ConversionStatus
  input :: InputDocument
  errors :: "ErrorItem list"
  render_as_dict :: 'd
  render_as_text :: string
  render_as_markdown :: string
  render_as_doctags :: string
  experimental :: "'d ExperimentalDocument"

subsection \<open>State\<close>

type_synonym ref = nat

text \<open>A file on disk: the text written to it and the encoding it was written with.\<close>

record file_data =
  encoding :: string
  text_written :: string

record 'd world =
  objects :: "ref \<Rightarrow> 'd ConversionResult"
  files :: "path \<rightharpoonup> file_data"
  dirs :: "path set"
  log_records :: "string list"

text \<open>
  What the module reads from outside the function: the module-level flag
  \<^verbatim>\<open>USE_EXPERIMENTAL\<close>, the two serialisers, the encoding that \<^verbatim>\<open>open\<close>
  uses when none is passed (the locale's preferred encoding), the paths the operating
  system refuses to create or open for writing (permission denied, disk full,
  read-only file system), and the texts each codec can encode.
\<close>

record 'd env =
  USE_EXPERIMENTAL :: bool
  json_dumps :: "'d \<Rightarrow> string"
  yaml_safe_dump :: "'d \<Rightarrow> string"
  preferred_encoding :: string
  os_error :: "path \<Rightarrow> bool"
  encodable :: "string \<Rightarrow> string \<Rightarrow> bool"

text \<open>Line 14 of the source: the value the module gives the flag.\<close>

definition USE_EXPERIMENTAL_default :: bool where
  "USE_EXPERIMENTAL_default = False"

record counters =
  success_count :: nat
  failure_count :: nat
  partial_success_count :: nat

text \<open>
  The exceptions of the two functions: the unbound names and the final check of
  \<^verbatim>\<open>main\<close>, and the I/O errors that \<^verbatim>\<open>mkdir\<close>, \<^verbatim>\<open>open\<close> and
  \<^verbatim>\<open>write\<close> raise.
\<close>

datatype py_exception =
    NameError string
  | RuntimeError string
  | FileExistsError path
  | NotADirectoryError path
  | IsADirectoryError path
  | OSError path
  | UnicodeEncodeError string

subsection \<open>Effects\<close>

text \<open>
  A statement that can raise: the state it leaves, and the exception if it raised.
  Statements in sequence: the second runs only when the first did not raise.
\<close>

type_synonym 'd io = "'d world \<Rightarrow> py_exception option \<times> 'd world"

definition and_then :: "'d io \<Rightarrow> 'd io \<Rightarrow> 'd io" where
  "and_then f g w = (case f w of (None, w') \<Rightarrow> g w' | (Some x, w') \<Rightarrow> (Some x, w'))"

text \<open>\<^verbatim>\<open>output_dir / name\<close>, for a name of one component.\<close>

definition path_div :: "path \<Rightarrow> string \<Rightarrow> path" where
  "path_div d n = d @ [n]"

text \<open>
  \<^verbatim>\<open>output_dir.mkdir(parents=True, exist_ok=True)\<close>: \<^verbatim>\<open>FileExistsError\<close>
  when the path is a regular file (\<^verbatim>\<open>exist_ok\<close> excuses a directory only),
  \<^verbatim>\<open>NotADirectoryError\<close> when one of its ancestors is a regular file; a
  directory that exists is left alone; otherwise the directory and its missing
  ancestors are created, unless the operating system refuses.
\<close>

definition mkdir_parents :: "'d env \<Rightarrow> path \<Rightarrow> 'd io" where
  "mkdir_parents e d w =
     (if files w d \<noteq> None then (Some (FileExistsError d), w)
      else if list_ex (\<lambda>p. files w p \<noteq> None) (prefixes d) then (Some (NotADirectoryError d), w)
      else if d \<in> dirs w then (None, w\<lparr>dirs := dirs w \<union> set (prefixes d)\<rparr>)
      else if os_error e d then (Some (OSError d), w)
      else (None, w\<lparr>dirs := dirs w \<union> set (prefixes d)\<rparr>))"

text \<open>
  The codec of an \<^verbatim>\<open>open\<close> call: no encoding argument (\<open>None\<close>) means the
  locale's preferred encoding.
\<close>

definition text_encoding :: "'d env \<Rightarrow> string option \<Rightarrow> string" where
  "text_encoding e enc = (case enc of Some c \<Rightarrow> c | None \<Rightarrow> preferred_encoding e)"

text \<open>
  \<^verbatim>\<open>with p.open("w", encoding=enc) as fp: fp.write(content)\<close>. \<^verbatim>\<open>open\<close>
  raises when the path is a directory or the operating system refuses, and the file
  system is unchanged. Otherwise the file is created or truncated. \<^verbatim>\<open>write\<close>
  encodes the whole text first: when the codec cannot encode it,
  \<^verbatim>\<open>UnicodeEncodeError\<close> is raised and the file stays empty; otherwise the file
  holds the content alone.
\<close>

definition open_write :: "'d env \<Rightarrow> path \<Rightarrow> string option \<Rightarrow> string \<Rightarrow> 'd io" where
  "open_write e p enc content w =
     (if p \<in> dirs w then (Some (IsADirectoryError p), w)
      else if os_error e p then (Some (OSError p), w)
      else if encodable e (text_encoding e enc) content then
        (None, w\<lparr>files := (files w)(p \<mapsto>
           \<lparr>encoding = text_encoding e enc, text_written = content\<rparr>)\<rparr>)
      else
        (Some (UnicodeEncodeError (text_encoding e enc)),
         w\<lparr>files := (files w)(p \<mapsto> \<lparr>encoding = text_encoding e enc, text_written = []\<rparr>)\<rparr>))"

text \<open>
  \<^verbatim>\<open>_log.info(msg)\<close>. The logging module does not let a handler's error reach
  the caller, so the call does not raise.
\<close>

definition log_info :: "string \<Rightarrow> 'd world \<Rightarrow> 'd world" where
  "log_info msg w = w\<lparr>log_records := log_records w @ [msg]\<rparr>"

text \<open>Decimal digits of a natural number, as an f-string formats an \<^verbatim>\<open>int\<close>.\<close>

fun string_of_nat :: "nat \<Rightarrow> string" where
  "string_of_nat n =
     (if n < 10 then [''0123456789'' ! n]
      else string_of_nat (n div 10) @ [''0123456789'' ! (n mod 10)])"

declare string_of_nat.simps [simp del]

subsection \<open>The driver\<close>

text \<open>Lines 53 to 77: the four experimental exports, opened without an encoding.\<close>

definition export_experimental :: "'d env \<Rightarrow> path \<Rightarrow> string \<Rightarrow> 'd ConversionResult \<Rightarrow> 'd io" where
  "export_experimental e output_dir doc_filename conv_res =
     and_then
       (open_write e (path_div output_dir (doc_filename @ ''.experimental.json'')) None
          (json_dumps e (model_dump (experimental conv_res))))
    (and_then
       (open_write e (path_div output_dir (doc_filename @ ''.experimental.yaml'')) None
          (yaml_safe_dump e (model_dump (experimental conv_res))))
    (and_then
       (open_write e (path_div output_dir (doc_filename @ ''.experimental.doctags'')) None
          (export_to_document_tokens (experimental conv_res)))
       (open_write e (path_div output_dir (doc_filename @ ''.experimental.md'')) None
          (export_to_markdown (experimental conv_res)))))"

text \<open>Lines 30 to 77: the exports of a successful result.\<close>

definition export_success :: "'d env \<Rightarrow> path \<Rightarrow> 'd ConversionResult \<Rightarrow> 'd io" where
  "export_success e output_dir conv_res =
     (let doc_filename = stem (input_file (input conv_res)) in
      and_then
        (open_write e (path_div output_dir (doc_filename @ ''.json'')) (Some ''utf-8'')
           (json_dumps e (render_as_dict conv_res)))
     (and_then
        (open_write e (path_div output_dir (doc_filename @ ''.txt'')) (Some ''utf-8'')
           (render_as_text conv_res))
     (and_then
        (open_write e (path_div output_dir (doc_filename @ ''.md'')) (Some ''utf-8'')
           (render_as_markdown conv_res))
     (and_then
        (open_write e (path_div output_dir (doc_filename @ ''.doctags'')) (Some ''utf-8'')
           (render_as_doctags conv_res))
        (if USE_EXPERIMENTAL e then export_experimental e output_dir doc_filename conv_res
         else (\<lambda>w. (None, w)))))))"

text \<open>Lines 83 and 84: one record per error item, a tab before the message.\<close>

fun log_errors :: "ErrorItem list \<Rightarrow> 'd world \<Rightarrow> 'd world" where
  "log_errors [] w = w"
| "log_errors (item # items) w = log_errors items (log_info (CHR 0x09 # error_message item) w)"

text \<open>
  Lines 28 to 88: the body of the loop, for the result the reference points to, on
  the counters and the state. The success counter is incremented (line 29) before
  the exports, so it is even when one of them raises.
\<close>

definition export_one :: "'d env \<Rightarrow> path \<Rightarrow> ref \<Rightarrow> counters \<times> 'd world \<Rightarrow> py_exception option \<times> counters \<times> 'd world" where
  "export_one e output_dir r cw =
     (case cw of (c, w) \<Rightarrow>
        let conv_res = objects w r in
        if status conv_res = SUCCESS then
          (case export_success e output_dir conv_res w of
             (x, w') \<Rightarrow> (x, c\<lparr>success_count := success_count c + 1\<rparr>, w'))
        else if status conv_res = PARTIAL_SUCCESS then
          (None, c\<lparr>partial_success_count := partial_success_count c + 1\<rparr>,
           log_errors (errors conv_res)
             (log_info (''Document '' @ path_str (input_file (input conv_res))
                        @ '' was partially converted with the following errors:'') w))
        else
          (None, c\<lparr>failure_count := failure_count c + 1\<rparr>,
           log_info (''Document '' @ path_str (input_file (input conv_res)) @ '' failed to convert.'') w))"

text \<open>Line 27: the loop over the results, in order; an exception ends it.\<close>

fun export_loop :: "'d env \<Rightarrow> path \<Rightarrow> ref list \<Rightarrow> counters \<times> 'd world \<Rightarrow> py_exception option \<times> counters \<times> 'd world" where
  "export_loop e output_dir [] cw = (None, cw)"
| "export_loop e output_dir (r # rs) cw =
     (case export_one e output_dir r cw of
        (None, cw') \<Rightarrow> export_loop e output_dir rs cw'
      | (Some x, cw') \<Rightarrow> (Some x, cw'))"

text \<open>Lines 90 to 94: the summary record.\<close>

definition summary_message :: "counters \<Rightarrow> string" where
  "summary_message c =
     ''Processed '' @ string_of_nat (success_count c + partial_success_count c + failure_count c)
     @ '' docs, of which '' @ string_of_nat (failure_count c) @ '' failed and ''
     @ string_of_nat (partial_success_count c) @ '' were partially converted.''"

text \<open>
  Lines 17 to 95. The result is the exception that propagated (\<open>Inl\<close>) or the
  returned triple (\<open>Inr\<close>), with the state the call leaves.
\<close>

definition export_documents :: "'d env \<Rightarrow> ref list \<Rightarrow> path \<Rightarrow> 'd world \<Rightarrow> (py_exception + nat \<times> nat \<times> nat) \<times> 'd world" where
  "export_documents e conv_results output_dir w =
     (case mkdir_parents e output_dir w of
        (Some x, w0) \<Rightarrow> (Inl x, w0)
      | (None, w0) \<Rightarrow>
          (case export_loop e output_dir conv_results
                  (\<lparr>success_count = 0, failure_count = 0, partial_success_count = 0\<rparr>, w0) of
             (Some x, c, w1) \<Rightarrow> (Inl x, w1)
           | (None, c, w1) \<Rightarrow>
               (Inr (success_count c, partial_success_count c, failure_count c),
                log_info (summary_message c) w1)))"

subsection \<open>The top-level routine\<close>

text \<open>
  The names the module binds at its top level: the imports of lines 1 to 10, the
  assignments of lines 12 and 14, and the two functions.
\<close>

definition module_globals :: "string list" where
  "module_globals =
     [''json'', ''logging'', ''time'', ''Path'', ''Iterable'', ''yaml'',
      ''ConversionStatus'', ''PdfPipelineOptions'',
      ''ConversionResult'', ''DocumentConversionInput'',
      ''_log'', ''USE_EXPERIMENTAL'', ''export_documents'', ''main'']"

text \<open>
  Reading global names in the order the statements evaluate them: the first one that
  is not bound raises \<^verbatim>\<open>NameError\<close>. (The builtins \<^verbatim>\<open>len\<close> and
  \<^verbatim>\<open>RuntimeError\<close> are always bound and are not looked up here.)
\<close>

fun resolve_all :: "string list \<Rightarrow> string list \<Rightarrow> py_exception + unit" where
  "resolve_all ns [] = Inr ()"
| "resolve_all ns (n # names) =
     (if n \<in> set ns then resolve_all ns names else Inl (NameError n))"

text \<open>Lines 101 to 107.\<close>

definition input_doc_paths :: "string list" where
  "input_doc_paths =
     [''tests/data/2206.01062.pdf'', ''tests/data/2203.01017v2.pdf'',
      ''tests/data/2305.03393v1.pdf'', ''tests/data/redp5110.pdf'',
      ''tests/data/redp5695.pdf'']"

text \<open>
  \<^verbatim>\<open>main\<close>, run in a module whose bound names are \<open>ns\<close>. The converter is
  external: \<open>convert\<close> stands for \<^verbatim>\<open>doc_converter.convert\<close> after
  \<^verbatim>\<open>DocumentConversionInput.from_paths\<close>, and gives the references of the results;
  \<open>elapsed\<close> is the elapsed time as \<^verbatim>\<open>{end_time:.2f}\<close> formats it. The names
  are read in the order of lines 99 to 125, then those of lines 128 and 130. An
  exception of \<^verbatim>\<open>export_documents\<close> propagates.
\<close>

definition main :: "string list \<Rightarrow> (string list \<Rightarrow> ref list) \<Rightarrow> string \<Rightarrow> 'd env \<Rightarrow> 'd world \<Rightarrow> (py_exception + unit) \<times> 'd world" where
  "main ns convert elapsed e w =
     (case resolve_all ns
             [''logging'', ''Path'', ''PdfDocumentConverter'', ''PdfPipelineOptions'',
              ''DocumentConversionInput'', ''StandardModelPipeline'',
              ''DocumentConversionInput'', ''time'', ''export_documents'', ''Path''] of
        Inl err \<Rightarrow> (Inl err, w)
      | Inr _ \<Rightarrow>
          (case export_documents e (convert input_doc_paths) [''scratch''] w of
             (Inl err, w1) \<Rightarrow> (Inl err, w1)
           | (Inr (sc, pc, fc), w1) \<Rightarrow>
               (case resolve_all ns [''time'', ''_log''] of
                  Inl err \<Rightarrow> (Inl err, w1)
                | Inr _ \<Rightarrow>
                    let w2 = log_info (''All documents were converted in '' @ elapsed
                                       @ '' seconds.'') w1
                    in if fc > 0 then
                         (Inl (RuntimeError (''The example failed converting '' @ string_of_nat fc
                            @ '' on '' @ string_of_nat (length input_doc_paths) @ ''.'')), w2)
                       else (Inr (), w2))))"

subsection \<open>Functions for the statements\<close>

text \<open>
  The \<^verbatim>\<open>with\<close> blocks that a successful result runs, in the order of lines 33
  to 77: the path, the encoding argument and the text of each.
\<close>

definition success_writes :: "'d env \<Rightarrow> path \<Rightarrow> 'd ConversionResult \<Rightarrow> (path \<times> string option \<times> string) list" where
  "success_writes e output_dir conv_res =
     (let doc_filename = stem (input_file (input conv_res)) in
      [(path_div output_dir (doc_filename @ ''.json''), Some ''utf-8'',
          json_dumps e (render_as_dict conv_res)),
       (path_div output_dir (doc_filename @ ''.txt''), Some ''utf-8'', render_as_text conv_res),
       (path_div output_dir (doc_filename @ ''.md''), Some ''utf-8'', render_as_markdown conv_res),
       (path_div output_dir (doc_filename @ ''.doctags''), Some ''utf-8'',
          render_as_doctags conv_res)]
      @ (if USE_EXPERIMENTAL e then
           [(path_div output_dir (doc_filename @ ''.experimental.json''), None,
               json_dumps e (model_dump (experimental conv_res))),
            (path_div output_dir (doc_filename @ ''.experimental.yaml''), None,
               yaml_safe_dump e (model_dump (experimental conv_res))),
            (path_div output_dir (doc_filename @ ''.experimental.doctags''), None,
               export_to_document_tokens (experimental conv_res)),
            (path_div output_dir (doc_filename @ ''.experimental.md''), None,
               export_to_markdown (experimental conv_res))]
         else []))"

text \<open>The writes of any result: those of a successful one, none otherwise.\<close>

definition result_writes :: "'d env \<Rightarrow> path \<Rightarrow> 'd ConversionResult \<Rightarrow> (path \<times> string option \<times> string) list" where
  "result_writes e output_dir conv_res =
     (if status conv_res = SUCCESS then success_writes e output_dir conv_res else [])"

text \<open>Running a list of writes in order, up to the first that raises.\<close>

fun write_all :: "'d env \<Rightarrow> (path \<times> string option \<times> string) list \<Rightarrow> 'd io" where
  "write_all e [] w = (None, w)"
| "write_all e ((p, enc, content) # ops) w =
     (case open_write e p enc content w of
        (None, w') \<Rightarrow> write_all e ops w'
      | (Some x, w') \<Rightarrow> (Some x, w'))"

text \<open>The file a write leaves when it does not raise.\<close>

definition written :: "'d env \<Rightarrow> path \<times> string option \<times> string \<Rightarrow> path \<times> file_data" where
  "written e op = (case op of (p, enc, content) \<Rightarrow>
     (p, \<lparr>encoding = text_encoding e enc, text_written = content\<rparr>))"

text \<open>
  A write does not raise, given the directories \<open>D\<close> that exist: the path is not a
  directory, the operating system does not refuse it, and the codec can encode the
  text.
\<close>

definition write_ok :: "'d env \<Rightarrow> path set \<Rightarrow> path \<times> string option \<times> string \<Rightarrow> bool" where
  "write_ok e D op = (case op of (p, enc, content) \<Rightarrow>
     p \<notin> D \<and> \<not> os_error e p \<and> encodable e (text_encoding e enc) content)"

text \<open>The directory can be created or is there already.\<close>

definition mkdir_ok :: "'d env \<Rightarrow> path \<Rightarrow> 'd world \<Rightarrow> bool" where
  "mkdir_ok e d w =
     (list_all (\<lambda>p. files w p = None) (prefixes d) \<and> (d \<in> dirs w \<or> \<not> os_error e d))"

text \<open>
  No I/O error in a whole call: the directory can be created, and no write of any
  result of the sequence raises.
\<close>

definition export_ok :: "'d env \<Rightarrow> ref list \<Rightarrow> path \<Rightarrow> 'd world \<Rightarrow> bool" where
  "export_ok e conv_results output_dir w =
     (mkdir_ok e output_dir w
      \<and> list_all (\<lambda>r. list_all (write_ok e (dirs w \<union> set (prefixes output_dir)))
                         (result_writes e output_dir (objects w r))) conv_results)"

text \<open>The records one iteration logs for a result (lines 80 to 87).\<close>

definition result_log :: "'d ConversionResult \<Rightarrow> string list" where
  "result_log conv_res =
     (if status conv_res = SUCCESS then []
      else if status conv_res = PARTIAL_SUCCESS then
        (''Document '' @ path_str (input_file (input conv_res))
         @ '' was partially converted with the following errors:'')
        # map (\<lambda>item. CHR 0x09 # error_message item) (errors conv_res)
      else [''Document '' @ path_str (input_file (input conv_res)) @ '' failed to convert.''])"

text \<open>The counters as the triple that is returned.\<close>

definition counters_of :: "nat \<times> nat \<times> nat \<Rightarrow> counters" where
  "counters_of t = (case t of (sc, pc, fc) \<Rightarrow>
     \<lparr>success_count = sc, failure_count = fc, partial_success_count = pc\<rparr>)"

subsection \<open>Concrete batches\<close>

text \<open>
  The batch of the spec's scenario: a successful document \<^verbatim>\<open>a\<close>, a partially
  converted document \<^verbatim>\<open>b\<close> with the error \<^verbatim>\<open>bad page\<close>, and a failed
  document \<^verbatim>\<open>c\<close>. The serialisable data are strings here:
  \<^verbatim>\<open>json.dumps\<close> returns the string, \<^verbatim>\<open>yaml.safe_dump\<close> the string and a
  newline. Nothing is refused by the operating system, and every codec but ASCII
  encodes every text.
\<close>

definition scenario_result :: "ConversionStatus \<Rightarrow> string \<Rightarrow> string list \<Rightarrow> string ConversionResult" where
  "scenario_result st name msgs =
     \<lparr>status = st,
      input = \<lparr>input_file = \<lparr>path_str = ''tests/data/'' @ name @ ''.pdf'', stem = name\<rparr>\<rparr>,
      errors = map (\<lambda>m. \<lparr>error_message = m\<rparr>) msgs,
      render_as_dict = ''{}'',
      render_as_text = ''text'',
      render_as_markdown = ''# text'',
      render_as_doctags = ''<document>text</document>'',
      experimental = \<lparr>model_dump = ''{}'', export_to_document_tokens = ''<doctag>text</doctag>'',
                      export_to_markdown = ''# text''\<rparr>\<rparr>"

definition scenario_objects :: "ref \<Rightarrow> string ConversionResult" where
  "scenario_objects r =
     (if r = 0 then scenario_result SUCCESS ''a'' []
      else if r = 1 then scenario_result PARTIAL_SUCCESS ''b'' [''bad page'']
      else scenario_result FAILURE ''c'' [])"

definition scenario_world :: "string world" where
  "scenario_world = \<lparr>objects = scenario_objects, files = Map.empty, dirs = {}, log_records = []\<rparr>"

definition scenario_env :: "bool \<Rightarrow> string \<Rightarrow> string env" where
  "scenario_env flag enc =
     \<lparr>USE_EXPERIMENTAL = flag, json_dumps = (\<lambda>d. d), yaml_safe_dump = (\<lambda>d. d @ [CHR 0x0A]),
      preferred_encoding = enc, os_error = (\<lambda>p. False),
      encodable = (\<lambda>codec t. if codec = ''ascii'' then CHR 0xE9 \<notin> set t else True)\<rparr>"

definition no_counts :: counters where
  "no_counts = \<lparr>success_count = 0, failure_count = 0, partial_success_count = 0\<rparr>"

text \<open>
  A world where the output path is taken by a regular file, and a world whose
  successful document has an accented letter in its experimental renderings.
\<close>

definition blocked_world :: "string world" where
  "blocked_world =
     scenario_world\<lparr>files := [[''scratch''] \<mapsto> \<lparr>encoding = ''utf-8'', text_written = ''x''\<rparr>]\<rparr>"

definition accented_world :: "string world" where
  "accented_world =
     scenario_world\<lparr>objects := (\<lambda>r. (scenario_result SUCCESS ''a'' [])
        \<lparr>experimental := \<lparr>model_dump = ''{}'', export_to_document_tokens = [CHR 0xE9],
                          export_to_markdown = [CHR 0xE9]\<rparr>\<rparr>)\<rparr>"

section \<open>Helper facts\<close>

lemma log_errors_eq:
  "log_errors items w = w\<lparr>log_records := log_records w @ map (\<lambda>item. CHR 0x09 # error_message item) items\<rparr>"
  by (induction items arbitrary: w) (simp_all add: log_info_def)

lemma filter3_length:
  "length (filter (\<lambda>x. f x = SUCCESS) xs) + length (filter (\<lambda>x. f x = PARTIAL_SUCCESS) xs)
   + length (filter (\<lambda>x. f x \<noteq> SUCCESS \<and> f x \<noteq> PARTIAL_SUCCESS) xs) = length xs"
  by (induction xs) auto

lemma map_add_twice: "(f ++ g) ++ g = f ++ g"
  by (rule ext) (simp add: map_add_def split: option.split)

subsection \<open>One write\<close>

lemma open_write_ok:
  assumes "write_ok e (dirs w) (p, enc, t)"
  shows "open_write e p enc t w =
           (None, w\<lparr>files := files w ++ map_of [written e (p, enc, t)]\<rparr>)"
  using assms by (simp add: open_write_def write_ok_def written_def)

lemma open_write_fail:
  assumes "\<not> write_ok e (dirs w) (p, enc, t)"
  shows "fst (open_write e p enc t w) \<noteq> None"
  using assms by (auto simp: open_write_def write_ok_def)

lemma open_write_frame:
  "objects (snd (open_write e p enc t w)) = objects w"
  "dirs (snd (open_write e p enc t w)) = dirs w"
  "log_records (snd (open_write e p enc t w)) = log_records w"
  by (simp_all add: open_write_def)

lemma open_write_other:
  "q \<noteq> p \<Longrightarrow> files (snd (open_write e p enc t w)) q = files w q"
  by (simp add: open_write_def)

lemma open_write_sim:
  assumes "files w1 = m ++ files w2" and "dirs w1 = dirs w2"
  shows "fst (open_write e p enc t w1) = fst (open_write e p enc t w2)
       \<and> files (snd (open_write e p enc t w1)) = m ++ files (snd (open_write e p enc t w2))"
  using assms by (simp add: open_write_def)

subsection \<open>A list of writes\<close>

lemma write_all_frame:
  "objects (snd (write_all e ops w)) = objects w
   \<and> dirs (snd (write_all e ops w)) = dirs w
   \<and> log_records (snd (write_all e ops w)) = log_records w"
proof (induction ops arbitrary: w)
  case Nil
  show ?case by simp
next
  case (Cons op ops)
  obtain p enc t where op: "op = (p, enc, t)"
    by (cases op)
  obtain x w' where ow: "open_write e p enc t w = (x, w')"
    by (cases "open_write e p enc t w")
  have fr: "objects w' = objects w" "dirs w' = dirs w" "log_records w' = log_records w"
    using open_write_frame [of e p enc t w] ow by simp_all
  show ?case
  proof (cases x)
    case None
    with Cons.IH [of w'] op ow fr show ?thesis by simp
  next
    case (Some y)
    with op ow fr show ?thesis by simp
  qed
qed

lemma write_all_ok:
  assumes "list_all (write_ok e (dirs w)) ops"
  shows "write_all e ops w = (None, w\<lparr>files := files w ++ map_of (rev (map (written e) ops))\<rparr>)"
  using assms
proof (induction ops arbitrary: w)
  case Nil
  show ?case by simp
next
  case (Cons op ops)
  obtain p enc t where op: "op = (p, enc, t)"
    by (cases op)
  let ?w' = "w\<lparr>files := files w ++ map_of [written e (p, enc, t)]\<rparr>"
  have ok1: "write_ok e (dirs w) (p, enc, t)" and rest: "list_all (write_ok e (dirs ?w')) ops"
    using Cons.prems op by simp_all
  have "write_all e (op # ops) w = write_all e ops ?w'"
    using open_write_ok [OF ok1] op by simp
  also have "\<dots> = (None, ?w'\<lparr>files := files ?w' ++ map_of (rev (map (written e) ops))\<rparr>)"
    by (rule Cons.IH [OF rest])
  also have "\<dots> = (None, w\<lparr>files := files w ++ map_of (rev (map (written e) (op # ops)))\<rparr>)"
    by (simp add: op)
  finally show ?case .
qed

lemma write_all_fail:
  assumes "\<not> list_all (write_ok e (dirs w)) ops"
  shows "fst (write_all e ops w) \<noteq> None"
  using assms
proof (induction ops arbitrary: w)
  case Nil
  then show ?case by simp
next
  case (Cons op ops)
  obtain p enc t where op: "op = (p, enc, t)"
    by (cases op)
  show ?case
  proof (cases "write_ok e (dirs w) (p, enc, t)")
    case True
    let ?w' = "w\<lparr>files := files w ++ map_of [written e (p, enc, t)]\<rparr>"
    have "\<not> list_all (write_ok e (dirs ?w')) ops"
      using Cons.prems True op by simp
    from Cons.IH [OF this] open_write_ok [OF True] op show ?thesis by simp
  next
    case False
    obtain x w' where ow: "open_write e p enc t w = (x, w')"
      by (cases "open_write e p enc t w")
    with open_write_fail [OF False] have "x \<noteq> None" by simp
    with ow op show ?thesis by auto
  qed
qed

lemma write_all_sim:
  assumes "files w1 = m ++ files w2" and "dirs w1 = dirs w2"
  shows "fst (write_all e ops w1) = fst (write_all e ops w2)
       \<and> files (snd (write_all e ops w1)) = m ++ files (snd (write_all e ops w2))"
  using assms
proof (induction ops arbitrary: w1 w2)
  case Nil
  then show ?case by simp
next
  case (Cons op ops)
  obtain p enc t where op: "op = (p, enc, t)"
    by (cases op)
  obtain x1 v1 where o1: "open_write e p enc t w1 = (x1, v1)"
    by (cases "open_write e p enc t w1")
  obtain x2 v2 where o2: "open_write e p enc t w2 = (x2, v2)"
    by (cases "open_write e p enc t w2")
  have x: "x1 = x2" and f: "files v1 = m ++ files v2"
    using open_write_sim [OF Cons.prems, of e p enc t] o1 o2 by simp_all
  have d: "dirs v1 = dirs v2"
    using open_write_frame(2) [of e p enc t w1] open_write_frame(2) [of e p enc t w2]
      o1 o2 Cons.prems(2) by simp
  show ?case
  proof (cases x2)
    case None
    with Cons.IH [OF f d] op o1 o2 x show ?thesis by simp
  next
    case (Some y)
    with op o1 o2 x f show ?thesis by simp
  qed
qed

lemma write_all_other:
  assumes "q \<notin> fst ` set ops"
  shows "files (snd (write_all e ops w)) q = files w q"
  using assms
proof (induction ops arbitrary: w)
  case Nil
  show ?case by simp
next
  case (Cons op ops)
  obtain p enc t where op: "op = (p, enc, t)"
    by (cases op)
  obtain x w' where ow: "open_write e p enc t w = (x, w')"
    by (cases "open_write e p enc t w")
  have qp: "q \<noteq> p" and rest: "q \<notin> fst ` set ops"
    using Cons.prems op by auto
  have f: "files w' q = files w q"
    using open_write_other [OF qp, of e enc t w] ow by simp
  show ?case
  proof (cases x)
    case None
    with Cons.IH [OF rest, of w'] op ow f show ?thesis by simp
  next
    case (Some y)
    with op ow f show ?thesis by simp
  qed
qed

lemma export_success_write_all:
  "export_success e d cr w = write_all e (success_writes e d cr) w"
  by (simp add: export_success_def export_experimental_def success_writes_def and_then_def
      Let_def split: prod.splits option.splits)

subsection \<open>One iteration\<close>

lemma export_one_frame:
  "objects (snd (snd (export_one e d r (c, w)))) = objects w"
  "dirs (snd (snd (export_one e d r (c, w)))) = dirs w"
  using write_all_frame [of e "success_writes e d (objects w r)" w]
  by (simp_all add: export_one_def Let_def export_success_write_all log_errors_eq log_info_def
      split_beta)

lemma export_one_counters:
  "fst (snd (export_one e d r (c, w))) =
     (if status (objects w r) = SUCCESS then c\<lparr>success_count := success_count c + 1\<rparr>
      else if status (objects w r) = PARTIAL_SUCCESS
        then c\<lparr>partial_success_count := partial_success_count c + 1\<rparr>
      else c\<lparr>failure_count := failure_count c + 1\<rparr>)"
  by (simp add: export_one_def Let_def split_beta)

lemma export_one_log:
  "prefix (log_records w) (log_records (snd (snd (export_one e d r (c, w)))))"
  using write_all_frame [of e "success_writes e d (objects w r)" w]
  by (simp add: export_one_def Let_def export_success_write_all log_errors_eq log_info_def
      split_beta)

lemma export_one_ok:
  assumes "list_all (write_ok e (dirs w)) (result_writes e d (objects w r))"
  shows "export_one e d r (c, w) =
     (None,
      (if status (objects w r) = SUCCESS then c\<lparr>success_count := success_count c + 1\<rparr>
       else if status (objects w r) = PARTIAL_SUCCESS
         then c\<lparr>partial_success_count := partial_success_count c + 1\<rparr>
       else c\<lparr>failure_count := failure_count c + 1\<rparr>),
      w\<lparr>files := files w ++ map_of (rev (map (written e) (result_writes e d (objects w r)))),
        log_records := log_records w @ result_log (objects w r)\<rparr>)"
proof (cases "status (objects w r) = SUCCESS")
  case True
  with assms have "list_all (write_ok e (dirs w)) (success_writes e d (objects w r))"
    by (simp add: result_writes_def)
  from write_all_ok [OF this] True show ?thesis
    by (simp add: export_one_def Let_def export_success_write_all result_writes_def result_log_def)
next
  case False
  then show ?thesis
    by (simp add: export_one_def Let_def result_writes_def result_log_def log_errors_eq log_info_def)
qed

lemma export_one_fail:
  assumes "\<not> list_all (write_ok e (dirs w)) (result_writes e d (objects w r))"
  shows "fst (export_one e d r (c, w)) \<noteq> None"
proof -
  from assms have s: "status (objects w r) = SUCCESS"
    by (auto simp: result_writes_def split: if_splits)
  with assms have "\<not> list_all (write_ok e (dirs w)) (success_writes e d (objects w r))"
    by (simp add: result_writes_def)
  from write_all_fail [OF this] s show ?thesis
    by (simp add: export_one_def Let_def export_success_write_all split_beta)
qed

lemma export_one_sim:
  assumes "files w1 = m ++ files w2" and "dirs w1 = dirs w2" and "objects w1 = objects w2"
  shows "fst (export_one e d r (c1, w1)) = fst (export_one e d r (c2, w2))
       \<and> files (snd (snd (export_one e d r (c1, w1))))
           = m ++ files (snd (snd (export_one e d r (c2, w2))))"
proof (cases "status (objects w2 r) = SUCCESS")
  case True
  with write_all_sim [OF assms(1,2), of e "success_writes e d (objects w2 r)"] assms(3)
  show ?thesis
    by (simp add: export_one_def Let_def export_success_write_all split_beta)
next
  case False
  with assms show ?thesis
    by (simp add: export_one_def Let_def log_errors_eq log_info_def)
qed

lemma success_writes_paths:
  "p \<in> fst ` set (success_writes e d cr) \<Longrightarrow> length p = Suc (length d)"
  by (auto simp: success_writes_def Let_def path_div_def split: if_splits)

lemma export_one_other:
  assumes "length q \<noteq> Suc (length d)"
  shows "files (snd (snd (export_one e d r (c, w)))) q = files w q"
proof -
  have "q \<notin> fst ` set (success_writes e d (objects w r))"
    using assms success_writes_paths [of q e d "objects w r"] by blast
  from write_all_other [OF this, of e w] show ?thesis
    by (simp add: export_one_def Let_def export_success_write_all log_errors_eq log_info_def
        split_beta)
qed

subsection \<open>The loop\<close>


lemma export_loop_frame:
  "objects (snd (snd (export_loop e d rs (c, w)))) = objects w
   \<and> dirs (snd (snd (export_loop e d rs (c, w)))) = dirs w
   \<and> prefix (log_records w) (log_records (snd (snd (export_loop e d rs (c, w)))))
   \<and> (length q \<noteq> Suc (length d) \<longrightarrow> files (snd (snd (export_loop e d rs (c, w)))) q = files w q)"
proof (induction rs arbitrary: c w)
  case Nil
  show ?case by simp
next
  case (Cons r rs)
  obtain x c' w' where step: "export_one e d r (c, w) = (x, c', w')"
    by (cases "export_one e d r (c, w)") auto
  have fr: "objects w' = objects w" "dirs w' = dirs w" "prefix (log_records w) (log_records w')"
    "length q \<noteq> Suc (length d) \<longrightarrow> files w' q = files w q"
    using export_one_frame [of e d r c w] export_one_log [of w e d r c]
      export_one_other [of q d e r c w] step by simp_all
  show ?case
  proof (cases x)
    case None
    have "prefix (log_records w) (log_records (snd (snd (export_loop e d rs (c', w')))))"
      using Cons.IH [of c' w'] fr(3) by (meson prefix_order.trans)
    with Cons.IH [of c' w'] step None fr show ?thesis by simp
  next
    case (Some y)
    with step fr show ?thesis by simp
  qed
qed

lemma export_loop_ok:
  assumes "list_all (\<lambda>r. list_all (write_ok e (dirs w)) (result_writes e d (objects w r))) rs"
  shows "export_loop e d rs (c, w) =
     (None,
      \<lparr>success_count = success_count c + length (filter (\<lambda>r. status (objects w r) = SUCCESS) rs),
       failure_count = failure_count c
         + length (filter (\<lambda>r. status (objects w r) \<noteq> SUCCESS
                              \<and> status (objects w r) \<noteq> PARTIAL_SUCCESS) rs),
       partial_success_count = partial_success_count c
         + length (filter (\<lambda>r. status (objects w r) = PARTIAL_SUCCESS) rs)\<rparr>,
      w\<lparr>files := files w
           ++ map_of (rev (concat (map (\<lambda>r. map (written e) (result_writes e d (objects w r))) rs))),
        log_records := log_records w @ concat (map (\<lambda>r. result_log (objects w r)) rs)\<rparr>)"
  using assms
proof (induction rs arbitrary: c w)
  case Nil
  show ?case by simp
next
  case (Cons r rs)
  let ?c' = "if status (objects w r) = SUCCESS then c\<lparr>success_count := success_count c + 1\<rparr>
       else if status (objects w r) = PARTIAL_SUCCESS
         then c\<lparr>partial_success_count := partial_success_count c + 1\<rparr>
       else c\<lparr>failure_count := failure_count c + 1\<rparr>"
  let ?w' = "w\<lparr>files := files w ++ map_of (rev (map (written e) (result_writes e d (objects w r)))),
        log_records := log_records w @ result_log (objects w r)\<rparr>"
  have ok1: "list_all (write_ok e (dirs w)) (result_writes e d (objects w r))"
    using Cons.prems by simp
  have rest: "list_all (\<lambda>r. list_all (write_ok e (dirs ?w')) (result_writes e d (objects ?w' r))) rs"
    using Cons.prems by simp
  have "export_loop e d (r # rs) (c, w) = export_loop e d rs (?c', ?w')"
    using export_one_ok [OF ok1, of c] by simp
  also note Cons.IH [OF rest, of ?c']
  finally show ?case
    by simp
qed

lemma export_loop_fail:
  assumes "\<not> list_all (\<lambda>r. list_all (write_ok e (dirs w)) (result_writes e d (objects w r))) rs"
  shows "fst (export_loop e d rs (c, w)) \<noteq> None"
  using assms
proof (induction rs arbitrary: c w)
  case Nil
  then show ?case by simp
next
  case (Cons r rs)
  obtain x c' w' where step: "export_one e d r (c, w) = (x, c', w')"
    by (cases "export_one e d r (c, w)") auto
  have fr: "objects w' = objects w" "dirs w' = dirs w"
    using export_one_frame [of e d r c w] step by simp_all
  show ?case
  proof (cases "list_all (write_ok e (dirs w)) (result_writes e d (objects w r))")
    case True
    with Cons.prems fr
    have "\<not> list_all (\<lambda>r. list_all (write_ok e (dirs w')) (result_writes e d (objects w' r))) rs"
      by simp
    from Cons.IH [OF this, of c'] export_one_ok [OF True, of c] step show ?thesis
      by simp
  next
    case False
    from export_one_fail [OF False, of c] step have "x \<noteq> None" by simp
    with step show ?thesis by auto
  qed
qed

lemma export_loop_sim:
  assumes "files w1 = m ++ files w2" and "dirs w1 = dirs w2" and "objects w1 = objects w2"
  shows "fst (export_loop e d rs (c1, w1)) = fst (export_loop e d rs (c2, w2))
       \<and> files (snd (snd (export_loop e d rs (c1, w1))))
           = m ++ files (snd (snd (export_loop e d rs (c2, w2))))
       \<and> success_count (fst (snd (export_loop e d rs (c1, w1)))) + success_count c2
           = success_count (fst (snd (export_loop e d rs (c2, w2)))) + success_count c1
       \<and> partial_success_count (fst (snd (export_loop e d rs (c1, w1)))) + partial_success_count c2
           = partial_success_count (fst (snd (export_loop e d rs (c2, w2)))) + partial_success_count c1
       \<and> failure_count (fst (snd (export_loop e d rs (c1, w1)))) + failure_count c2
           = failure_count (fst (snd (export_loop e d rs (c2, w2)))) + failure_count c1"
  using assms
proof (induction rs arbitrary: c1 w1 c2 w2)
  case Nil
  then show ?case by simp
next
  case (Cons r rs)
  obtain x1 k1 v1 where s1: "export_one e d r (c1, w1) = (x1, k1, v1)"
    by (cases "export_one e d r (c1, w1)") auto
  obtain x2 k2 v2 where s2: "export_one e d r (c2, w2) = (x2, k2, v2)"
    by (cases "export_one e d r (c2, w2)") auto
  have x: "x1 = x2" and f: "files v1 = m ++ files v2"
    using export_one_sim [OF Cons.prems, of e d r c1 c2] s1 s2 by simp_all
  have dv: "dirs v1 = dirs v2" and ov: "objects v1 = objects v2"
    using export_one_frame [of e d r c1 w1] export_one_frame [of e d r c2 w2] s1 s2 Cons.prems
    by simp_all
  have k: "success_count k1 + success_count c2 = success_count k2 + success_count c1"
    "partial_success_count k1 + partial_success_count c2
       = partial_success_count k2 + partial_success_count c1"
    "failure_count k1 + failure_count c2 = failure_count k2 + failure_count c1"
    using export_one_counters [of e d r c1 w1] export_one_counters [of e d r c2 w2] s1 s2
      Cons.prems(3)
    by (simp_all split: if_splits)
  show ?case
  proof (cases x2)
    case None
    from Cons.IH [OF f dv ov, of k1 k2] k s1 s2 x None show ?thesis
      by simp
  next
    case (Some y)
    with s1 s2 x f k show ?thesis by simp
  qed
qed

subsection \<open>Creating the directory\<close>

lemma mkdir_parents_ok:
  assumes "mkdir_ok e d w"
  shows "mkdir_parents e d w = (None, w\<lparr>dirs := dirs w \<union> set (prefixes d)\<rparr>)"
proof -
  from assms have all: "\<forall>p\<in>set (prefixes d). files w p = None"
    by (simp add: mkdir_ok_def list_all_iff)
  then have "files w d = None"
    by simp
  moreover from all have "\<not> list_ex (\<lambda>p. files w p \<noteq> None) (prefixes d)"
    by (simp add: list_ex_iff)
  ultimately show ?thesis
    using assms by (auto simp: mkdir_parents_def mkdir_ok_def)
qed

lemma mkdir_parents_fail:
  assumes "\<not> mkdir_ok e d w"
  shows "\<exists>x. mkdir_parents e d w = (Some x, w)"
  using assms
  by (auto simp: mkdir_parents_def mkdir_ok_def list_all_iff list_ex_iff)

subsection \<open>The whole call\<close>

lemma export_documents_ok:
  assumes "export_ok e rs d w"
  shows "export_documents e rs d w =
     (Inr (length (filter (\<lambda>r. status (objects w r) = SUCCESS) rs),
           length (filter (\<lambda>r. status (objects w r) = PARTIAL_SUCCESS) rs),
           length (filter (\<lambda>r. status (objects w r) \<noteq> SUCCESS
                                \<and> status (objects w r) \<noteq> PARTIAL_SUCCESS) rs)),
      w\<lparr>dirs := dirs w \<union> set (prefixes d),
        files := files w
           ++ map_of (rev (concat (map (\<lambda>r. map (written e) (result_writes e d (objects w r))) rs))),
        log_records := log_records w @ concat (map (\<lambda>r. result_log (objects w r)) rs)
           @ [summary_message
                \<lparr>success_count = length (filter (\<lambda>r. status (objects w r) = SUCCESS) rs),
                 failure_count = length (filter (\<lambda>r. status (objects w r) \<noteq> SUCCESS
                                \<and> status (objects w r) \<noteq> PARTIAL_SUCCESS) rs),
                 partial_success_count =
                   length (filter (\<lambda>r. status (objects w r) = PARTIAL_SUCCESS) rs)\<rparr>]\<rparr>)"
proof -
  let ?w0 = "w\<lparr>dirs := dirs w \<union> set (prefixes d)\<rparr>"
  let ?c0 = "\<lparr>success_count = 0, failure_count = 0, partial_success_count = 0\<rparr>"
  from assms have mk: "mkdir_parents e d w = (None, ?w0)"
    by (simp add: export_ok_def mkdir_parents_ok)
  from assms
  have "list_all (\<lambda>r. list_all (write_ok e (dirs ?w0)) (result_writes e d (objects ?w0 r))) rs"
    by (simp add: export_ok_def)
  from export_loop_ok [OF this, of ?c0] mk show ?thesis
    by (simp add: export_documents_def log_info_def)
qed

lemma export_documents_fail:
  assumes "\<not> export_ok e rs d w"
  shows "\<exists>x. fst (export_documents e rs d w) = Inl x"
proof (cases "mkdir_ok e d w")
  case False
  from mkdir_parents_fail [OF this] show ?thesis
    by (auto simp: export_documents_def)
next
  case True
  let ?w0 = "w\<lparr>dirs := dirs w \<union> set (prefixes d)\<rparr>"
  let ?c0 = "\<lparr>success_count = 0, failure_count = 0, partial_success_count = 0\<rparr>"
  have mk: "mkdir_parents e d w = (None, ?w0)"
    using True by (rule mkdir_parents_ok)
  from assms True
  have "\<not> list_all (\<lambda>r. list_all (write_ok e (dirs ?w0)) (result_writes e d (objects ?w0 r))) rs"
    by (simp add: export_ok_def)
  from export_loop_fail [OF this, of ?c0]
  obtain x c1 w1 where "export_loop e d rs (?c0, ?w0) = (Some x, c1, w1)"
    by (cases "export_loop e d rs (?c0, ?w0)") auto
  with mk show ?thesis
    by (simp add: export_documents_def)
qed

lemma export_documents_Inr_ok:
  assumes "fst (export_documents e rs d w) = Inr t"
  shows "export_ok e rs d w"
proof (rule ccontr)
  assume "\<not> export_ok e rs d w"
  from export_documents_fail [OF this] assms show False
    by auto
qed


lemmas scenario_defs =
  scenario_world_def scenario_objects_def scenario_result_def scenario_env_def no_counts_def
  blocked_world_def accented_world_def

lemmas driver_defs =
  export_documents_def mkdir_parents_def export_one_def export_success_def
  export_experimental_def and_then_def open_write_def text_encoding_def path_div_def
  log_info_def Let_def

lemma export_documents_via_loop:
  assumes "mkdir_parents e d w = (None, w0)"
  shows "files (snd (export_documents e rs d w))
           = files (snd (snd (export_loop e d rs
               (\<lparr>success_count = 0, failure_count = 0, partial_success_count = 0\<rparr>, w0))))"
    and "dirs (snd (export_documents e rs d w))
           = dirs (snd (snd (export_loop e d rs
               (\<lparr>success_count = 0, failure_count = 0, partial_success_count = 0\<rparr>, w0))))"
    and "(fst (export_documents e rs d w) = Inl x)
           = (fst (export_loop e d rs
               (\<lparr>success_count = 0, failure_count = 0, partial_success_count = 0\<rparr>, w0)) = Some x)"
    and "prefix (log_records (snd (snd (export_loop e d rs
               (\<lparr>success_count = 0, failure_count = 0, partial_success_count = 0\<rparr>, w0)))))
           (log_records (snd (export_documents e rs d w)))"
    and "objects (snd (export_documents e rs d w))
           = objects (snd (snd (export_loop e d rs
               (\<lparr>success_count = 0, failure_count = 0, partial_success_count = 0\<rparr>, w0))))"
  using assms
  by (simp_all add: export_documents_def log_info_def split: prod.splits option.splits)

lemma export_documents_Inr_iff:
  "fst (export_documents e rs d w) = Inr t
   \<longleftrightarrow> export_ok e rs d w
       \<and> t = (length (filter (\<lambda>r. status (objects w r) = SUCCESS) rs),
              length (filter (\<lambda>r. status (objects w r) = PARTIAL_SUCCESS) rs),
              length (filter (\<lambda>r. status (objects w r) \<noteq> SUCCESS
                                   \<and> status (objects w r) \<noteq> PARTIAL_SUCCESS) rs))"
proof
  assume ret: "fst (export_documents e rs d w) = Inr t"
  then have ok: "export_ok e rs d w"
    by (rule export_documents_Inr_ok)
  have "fst (export_documents e rs d w)
          = Inr (length (filter (\<lambda>r. status (objects w r) = SUCCESS) rs),
              length (filter (\<lambda>r. status (objects w r) = PARTIAL_SUCCESS) rs),
              length (filter (\<lambda>r. status (objects w r) \<noteq> SUCCESS
                                   \<and> status (objects w r) \<noteq> PARTIAL_SUCCESS) rs))"
    by (simp add: export_documents_ok [OF ok])
  with ret ok
  show "export_ok e rs d w
       \<and> t = (length (filter (\<lambda>r. status (objects w r) = SUCCESS) rs),
              length (filter (\<lambda>r. status (objects w r) = PARTIAL_SUCCESS) rs),
              length (filter (\<lambda>r. status (objects w r) \<noteq> SUCCESS
                                   \<and> status (objects w r) \<noteq> PARTIAL_SUCCESS) rs))"
    by simp
next
  assume "export_ok e rs d w
       \<and> t = (length (filter (\<lambda>r. status (objects w r) = SUCCESS) rs),
              length (filter (\<lambda>r. status (objects w r) = PARTIAL_SUCCESS) rs),
              length (filter (\<lambda>r. status (objects w r) \<noteq> SUCCESS
                                   \<and> status (objects w r) \<noteq> PARTIAL_SUCCESS) rs))"
  then show "fst (export_documents e rs d w) = Inr t"
    by (simp add: export_documents_ok)
qed








lemmas message_defs = summary_message_def counters_of_def result_log_def string_of_nat.simps

lemma main_names_bound:
  assumes "set [''logging'', ''Path'', ''PdfDocumentConverter'', ''PdfPipelineOptions'',
                ''DocumentConversionInput'', ''StandardModelPipeline'', ''time'',
                ''export_documents'', ''_log''] \<subseteq> set ns"
  shows "fst (main ns convert elapsed e w) =
           (case fst (export_documents e (convert input_doc_paths) [''scratch''] w) of
              Inl err \<Rightarrow> Inl err
            | Inr (sc, pc, fc) \<Rightarrow>
                if fc > 0 then
                  Inl (RuntimeError (''The example failed converting '' @ string_of_nat fc
                         @ '' on '' @ string_of_nat (length input_doc_paths) @ ''.''))
                else Inr ())"
  using assms
  by (simp add: main_def Let_def split: prod.splits sum.splits)

text \<open>The two scenarios of the spec, run on the model.\<close>

lemma scenario_export_documents:
  "fst (export_documents (scenario_env False ''utf-8'') [0, 1, 2] [''scratch''] scenario_world)
     = Inr (1, 1, 1)"
  "log_records (snd (export_documents (scenario_env False ''utf-8'') [0, 1, 2] [''scratch''] scenario_world)) =
     [''Document tests/data/b.pdf was partially converted with the following errors:'',
      CHR 0x09 # ''bad page'',
      ''Document tests/data/c.pdf failed to convert.'',
      ''Processed 3 docs, of which 1 failed and 1 were partially converted.'']"
  "dom (files (snd (export_documents (scenario_env False ''utf-8'') [0, 1, 2] [''scratch''] scenario_world))) =
     {[''scratch'', ''a.json''], [''scratch'', ''a.txt''], [''scratch'', ''a.md''], [''scratch'', ''a.doctags'']}"
  "fst (export_documents (scenario_env False ''utf-8'') [] [''scratch''] scenario_world) = Inr (0, 0, 0)"
  "files (snd (export_documents (scenario_env False ''utf-8'') [] [''scratch''] scenario_world)) = Map.empty"
  "[''scratch''] \<in> dirs (snd (export_documents (scenario_env False ''utf-8'') [] [''scratch''] scenario_world))"
  by (simp_all add: driver_defs message_defs scenario_defs) auto

section \<open>Properties of the driver\<close>

subsection \<open>The returned counts\<close>

text \<open>
  C1, as amended: for every finite sequence of results, \<^verbatim>\<open>export_documents\<close>
  returns exactly when no I/O error propagates, that is when the output directory can
  be created and no write of a successful result raises, and it then returns the
  triple (success count, partial-success count, failure count): the number of results
  whose status is \<^verbatim>\<open>SUCCESS\<close>, the number whose status is \<^verbatim>\<open>PARTIAL_SUCCESS\<close>,
  and the number of all the remaining results.
\<close>

theorem export_documents_returns_counts:
  "fst (export_documents e conv_results output_dir w) = Inr t
   \<longleftrightarrow> export_ok e conv_results output_dir w
       \<and> t = (length (filter (\<lambda>r. status (objects w r) = SUCCESS) conv_results),
              length (filter (\<lambda>r. status (objects w r) = PARTIAL_SUCCESS) conv_results),
              length (filter (\<lambda>r. status (objects w r) \<noteq> SUCCESS
                                   \<and> status (objects w r) \<noteq> PARTIAL_SUCCESS) conv_results))"
  by (rule export_documents_Inr_iff)

theorem export_documents_returns_counts_witness:
  "export_ok (scenario_env False ''utf-8'') [0, 1, 2] [''scratch''] scenario_world
   \<and> fst (export_documents (scenario_env False ''utf-8'') [0, 1, 2] [''scratch''] scenario_world)
       = Inr (1, 1, 1)"
proof -
  have ok: "export_ok (scenario_env False ''utf-8'') [0, 1, 2] [''scratch''] scenario_world"
    by (simp add: export_ok_def mkdir_ok_def write_ok_def result_writes_def success_writes_def
        path_div_def text_encoding_def Let_def scenario_defs)
  show ?thesis
    using ok
      export_documents_returns_counts [of "scenario_env False ''utf-8''" "[0, 1, 2]"
        "[''scratch'']" scenario_world "(1, 1, 1)"]
    by (simp add: scenario_defs)
qed

text \<open>
  C1 as stated, a triple for every sequence, fails where the output path is
  taken by a regular file: \<^verbatim>\<open>mkdir\<close> raises, and nothing is returned.
\<close>

theorem export_documents_raises_counterexample:
  "fst (export_documents (scenario_env False ''utf-8'') [0, 1, 2] [''scratch''] blocked_world)
     = Inl (FileExistsError [''scratch''])"
  by (simp add: export_documents_def mkdir_parents_def scenario_defs)

text \<open>
  C2: after the whole sequence is processed, that is when the call returns, the three
  counters sum to the length of the sequence; and one iteration of the loop adds one
  to exactly one of the three counters and leaves the other two as they were, also
  when its exports raise.
\<close>

theorem export_documents_counts_total:
  "(fst (export_documents e conv_results output_dir w) = Inr (sc, pc, fc)
      \<longrightarrow> sc + pc + fc = length conv_results)
   \<and> (case fst (snd (export_one e output_dir r (c, w))) of c' \<Rightarrow>
        (success_count c', partial_success_count c', failure_count c')
          \<in> {(success_count c + 1, partial_success_count c, failure_count c),
              (success_count c, partial_success_count c + 1, failure_count c),
              (success_count c, partial_success_count c, failure_count c + 1)})"
proof
  show "fst (export_documents e conv_results output_dir w) = Inr (sc, pc, fc)
      \<longrightarrow> sc + pc + fc = length conv_results"
  proof
    assume ret: "fst (export_documents e conv_results output_dir w) = Inr (sc, pc, fc)"
    then have ok: "export_ok e conv_results output_dir w"
      by (rule export_documents_Inr_ok)
    have "fst (export_documents e conv_results output_dir w)
          = Inr (length (filter (\<lambda>r. status (objects w r) = SUCCESS) conv_results),
              length (filter (\<lambda>r. status (objects w r) = PARTIAL_SUCCESS) conv_results),
              length (filter (\<lambda>r. status (objects w r) \<noteq> SUCCESS
                                   \<and> status (objects w r) \<noteq> PARTIAL_SUCCESS) conv_results))"
      by (simp add: export_documents_ok [OF ok])
    with ret filter3_length [of "\<lambda>r. status (objects w r)" conv_results]
    show "sc + pc + fc = length conv_results"
      by simp
  qed
next
  show "case fst (snd (export_one e output_dir r (c, w))) of c' \<Rightarrow>
        (success_count c', partial_success_count c', failure_count c')
          \<in> {(success_count c + 1, partial_success_count c, failure_count c),
              (success_count c, partial_success_count c + 1, failure_count c),
              (success_count c, partial_success_count c, failure_count c + 1)}"
    by (simp add: export_one_counters)
qed

theorem export_documents_counts_total_witness:
  "fst (export_documents (scenario_env False ''utf-8'') [0, 1, 2] [''scratch''] scenario_world)
     = Inr (1, 1, 1)
   \<and> (1::nat) + 1 + 1 = length [0::nat, 1, 2]"
  using export_documents_counts_total [of "scenario_env False ''utf-8''" "[0, 1, 2]"
      "[''scratch'']" scenario_world 1 1 1]
  by (simp add: driver_defs scenario_defs)

subsection \<open>One result of the sequence\<close>








subsection \<open>Text encoding of the exports\<close>

text \<open>
  C6: every file write of \<^verbatim>\<open>export_documents\<close>, the four experimental writes
  included, uses UTF-8. The source passes \<^verbatim>\<open>encoding="utf-8"\<close> to the four primary
  \<^verbatim>\<open>open\<close> calls and no encoding to the four experimental ones, which therefore
  take the locale's preferred encoding. Evaluated with the flag enabled under a cp1252
  locale: the experimental files are written in cp1252, the primary ones in UTF-8.
\<close>

theorem experimental_writes_encoding:
  "map_option encoding
     (files (snd (export_documents (scenario_env True ''cp1252'') [0] [''scratch''] scenario_world))
        [''scratch'', ''a.experimental.json'']) = Some ''cp1252''
   \<and> map_option encoding
     (files (snd (export_documents (scenario_env True ''cp1252'') [0] [''scratch''] scenario_world))
        [''scratch'', ''a.experimental.yaml'']) = Some ''cp1252''
   \<and> map_option encoding
     (files (snd (export_documents (scenario_env True ''cp1252'') [0] [''scratch''] scenario_world))
        [''scratch'', ''a.experimental.doctags'']) = Some ''cp1252''
   \<and> map_option encoding
     (files (snd (export_documents (scenario_env True ''cp1252'') [0] [''scratch''] scenario_world))
        [''scratch'', ''a.experimental.md'']) = Some ''cp1252''
   \<and> map_option encoding
     (files (snd (export_documents (scenario_env True ''cp1252'') [0] [''scratch''] scenario_world))
        [''scratch'', ''a.json'']) = Some ''utf-8''"
  by (simp add: driver_defs scenario_defs)

subsection \<open>The failure check of the top-level routine\<close>

text \<open>
  C7: \<^verbatim>\<open>main\<close> raises a fatal error exactly when the failure count is positive
  after the batch, and returns normally when it is zero. Evaluated in the module as
  it is written, with a converter whose only result is the successful one (failure
  count zero, flag at the module's value): \<^verbatim>\<open>main\<close> does not return normally,
  it raises \<^verbatim>\<open>NameError\<close>.
\<close>

theorem main_unreachable_failure_check:
  "fst (export_documents (scenario_env USE_EXPERIMENTAL_default ''utf-8'') [0]
          [''scratch''] scenario_world) = Inr (1, 0, 0)
   \<and> fst (main module_globals (\<lambda>paths. [0]) ''0.00''
            (scenario_env USE_EXPERIMENTAL_default ''utf-8'') scenario_world)
       = Inl (NameError ''PdfDocumentConverter'')"
  by (simp add: driver_defs main_def module_globals_def USE_EXPERIMENTAL_default_def scenario_defs)

subsection \<open>Frame properties\<close>

text \<open>
  C8: running \<^verbatim>\<open>export_documents\<close> a second time with the same results on the same
  output directory leaves the file system as the first run left it: the same files
  with the same content, and the same directories. This holds also when the runs
  raise, since both stop at the same write.
\<close>

theorem export_documents_idempotent:
  "(let w1 = snd (export_documents e conv_results output_dir w);
        w2 = snd (export_documents e conv_results output_dir w1)
    in files w2 = files w1 \<and> dirs w2 = dirs w1)"
proof (cases "mkdir_ok e output_dir w")
  case False
  from mkdir_parents_fail [OF this]
  have "snd (export_documents e conv_results output_dir w) = w"
    by (auto simp: export_documents_def)
  then show ?thesis
    by (simp add: Let_def)
next
  case True
  let ?c0 = "\<lparr>success_count = 0, failure_count = 0, partial_success_count = 0\<rparr>"
  let ?w0 = "w\<lparr>dirs := dirs w \<union> set (prefixes output_dir)\<rparr>"
  let ?W = "?w0\<lparr>files := Map.empty\<rparr>"
  let ?F = "files (snd (snd (export_loop e output_dir conv_results (?c0, ?W))))"
  let ?w1 = "snd (export_documents e conv_results output_dir w)"
  let ?w1' = "?w1\<lparr>dirs := dirs ?w1 \<union> set (prefixes output_dir)\<rparr>"
  let ?w2 = "snd (export_documents e conv_results output_dir ?w1)"
  have mk: "mkdir_parents e output_dir w = (None, ?w0)"
    using True by (rule mkdir_parents_ok)
  have f1: "files ?w1 = files ?w0 ++ ?F"
    using export_loop_sim [of ?w0 "files ?w0" ?W e output_dir conv_results ?c0 ?c0]
    by (simp add: export_documents_via_loop(1) [OF mk])
  have d1: "dirs ?w1 = dirs ?w0"
    using export_loop_frame [of e output_dir conv_results ?c0 ?w0]
    by (simp add: export_documents_via_loop(2) [OF mk])
  have o1: "objects ?w1 = objects w"
    using export_loop_frame [of e output_dir conv_results ?c0 ?w0]
    by (simp add: export_documents_via_loop(5) [OF mk])
  have short: "files ?w1 p = None" if "p \<in> set (prefixes output_dir)" for p
  proof -
    from that have "length p \<noteq> Suc (length output_dir)"
      by (auto simp: prefix_def)
    then have "files ?w1 p = files ?w0 p"
      using export_loop_frame [of e output_dir conv_results ?c0 ?w0 p]
      by (simp add: export_documents_via_loop(1) [OF mk])
    also have "\<dots> = None"
      using True that by (simp add: mkdir_ok_def list_all_iff)
    finally show ?thesis .
  qed
  have "mkdir_ok e output_dir ?w1"
    using short d1 by (simp add: mkdir_ok_def list_all_iff)
  then have mk1: "mkdir_parents e output_dir ?w1 = (None, ?w1')"
    by (rule mkdir_parents_ok)
  have d1': "dirs ?w1' = dirs ?W"
    using d1 by auto
  have "files ?w2 = files ?w1' ++ ?F"
    using export_loop_sim [of ?w1' "files ?w1'" ?W e output_dir conv_results ?c0 ?c0] d1' o1
    by (simp add: export_documents_via_loop(1) [OF mk1])
  also have "\<dots> = (files ?w0 ++ ?F) ++ ?F"
    using f1 by simp
  also have "\<dots> = files ?w1"
    using f1 by (simp only: map_add_twice)
  finally have f: "files ?w2 = files ?w1" .
  have "dirs ?w2 = dirs ?w1'"
    using export_loop_frame [of e output_dir conv_results ?c0 ?w1']
    by (simp add: export_documents_via_loop(2) [OF mk1])
  also have "\<dots> = dirs ?w1"
    using d1 by auto
  finally have d: "dirs ?w2 = dirs ?w1" .
  from f d show ?thesis
    by (simp add: Let_def)
qed

text \<open>
  C9: \<^verbatim>\<open>export_documents\<close> only reads the conversion results: the store of result
  objects is the same after the call as before it, whatever the sequence and whether
  the call returns or raises.
\<close>

theorem export_documents_reads_only:
  "objects (snd (export_documents e conv_results output_dir w)) = objects w"
proof -
  let ?c0 = "\<lparr>success_count = 0, failure_count = 0, partial_success_count = 0\<rparr>"
  obtain x w0 where mk: "mkdir_parents e output_dir w = (x, w0)"
    by (cases "mkdir_parents e output_dir w")
  have o0: "objects w0 = objects w"
    using mk by (auto simp: mkdir_parents_def split: if_splits)
  obtain y c w1 where loop: "export_loop e output_dir conv_results (?c0, w0) = (y, c, w1)"
    by (cases "export_loop e output_dir conv_results (?c0, w0)") auto
  have "objects w1 = objects w0"
    using export_loop_frame [of e output_dir conv_results ?c0 w0] loop by simp
  with o0 mk loop show ?thesis
    by (simp add: export_documents_def log_info_def split: option.splits)
qed

subsection \<open>The unbound names of the top-level routine\<close>

text \<open>
  C10: in the module as it is written, \<^verbatim>\<open>main\<close> always raises \<^verbatim>\<open>NameError\<close>
  before any conversion or export: the state is untouched, whatever the converter
  would return. The names \<^verbatim>\<open>PdfDocumentConverter\<close> and
  \<^verbatim>\<open>StandardModelPipeline\<close> are not bound by the module, and binding the first
  alone only moves the error to the second.
\<close>

theorem main_raises_name_error:
  "main module_globals convert elapsed e w = (Inl (NameError ''PdfDocumentConverter''), w)
   \<and> ''PdfDocumentConverter'' \<notin> set module_globals
   \<and> ''StandardModelPipeline'' \<notin> set module_globals
   \<and> main (''PdfDocumentConverter'' # module_globals) convert elapsed e w
       = (Inl (NameError ''StandardModelPipeline''), w)"
  by (simp add: main_def module_globals_def)

end
